theory Spec2Isabelle
  imports Main
begin

section \<open>Data model of the connection-interaction engine\<close>

text \<open>
  The engine of \<^verbatim>\<open>node_connection_interaction.py\<close> works on one candidate node, one
  connection and the scene. Nodes and connections are Python objects compared by
  identity; here they are identified by a number.
\<close>

type_synonym node_id = nat
type_synonym connection_id = nat

text \<open>
  Modelled from the spec: the module \<^verbatim>\<open>port\<close> (\<^verbatim>\<open>PortType\<close>, \<^verbatim>\<open>PortIndex\<close>,
  \<^verbatim>\<open>INVALID\<close>, \<^verbatim>\<open>opposite_port\<close>) is not part of the sources. A direction is
  \<^verbatim>\<open>input\<close>, \<^verbatim>\<open>output\<close> or the value \<^verbatim>\<open>none\<close>; Python being untyped, any other
  object can reach the engine, which is \<open>not_a_port_type\<close>. A port index is a
  Python int: the ports of a direction are numbered from 0, and \<open>INVALID\<close>, the
  sentinel of the hit test, is the int \<open>-1\<close>, which numbers no port.
\<close>

datatype PortType = PortType_input | PortType_output | PortType_none | not_a_port_type string

type_synonym PortIndex = int

definition INVALID :: PortIndex where
  "INVALID = - 1"

fun opposite_port :: "PortType \<Rightarrow> PortType" where
  "opposite_port PortType_input = PortType_output"
| "opposite_port PortType_output = PortType_input"
| "opposite_port p = PortType_none"

text \<open>
  Modelled from the spec: the modules \<^verbatim>\<open>enums\<close>, \<^verbatim>\<open>node_data\<close> and
  \<^verbatim>\<open>type_converter\<close> are not part of the sources. A data type is an identifier and a
  name. A converter value is Python's \<^verbatim>\<open>None\<close> (\<open>None\<close> here), the identity converter
  \<^verbatim>\<open>DefaultTypeConverter\<close>, or a converter registered for two data types. The test
  \<^verbatim>\<open>if converter:\<close> of \<^verbatim>\<open>try_connect\<close> is \<open>truthy\<close>, Python's truth test with no
  comparison to the identity converter: \<^verbatim>\<open>None\<close> is false, and a converter, a
  function-like value (spec, 3), is true, the identity converter as well.
\<close>

datatype ConnectionPolicy = ConnectionPolicy_one | ConnectionPolicy_many

datatype NodeDataType = NodeDataType (type_id: string) (type_name: string)

datatype TypeConverter = DefaultTypeConverter | RegisteredConverter NodeDataType NodeDataType

fun truthy :: "TypeConverter option \<Rightarrow> bool" where
  "truthy None = False"
| "truthy (Some converter) = True"

text \<open>
  Modelled from the spec: the module \<^verbatim>\<open>exceptions\<close> is not part of the sources. The four
  failures raised by \<^verbatim>\<open>can_connect\<close> are subclasses of \<^verbatim>\<open>NodeConnectionFailure\<close>;
  \<open>OtherNodeConnectionFailure\<close> stands for any further member of that category that a
  collaborator raises. \<^verbatim>\<open>ValueError\<close>, \<^verbatim>\<open>IndexError\<close>, \<^verbatim>\<open>KeyError\<close> and every other
  exception are outside it. \<open>is_NodeConnectionFailure\<close> is the test of
  \<^verbatim>\<open>except NodeConnectionFailure\<close>.
\<close>

datatype error =
    ConnectionRequiresPortFailure
  | ConnectionSelfFailure
  | ConnectionPointFailure
  | ConnectionPortNotEmptyFailure
  | OtherNodeConnectionFailure string
  | ValueError
  | IndexError
  | KeyError
  | OtherException string

fun is_NodeConnectionFailure :: "error \<Rightarrow> bool" where
  "is_NodeConnectionFailure ConnectionRequiresPortFailure = True"
| "is_NodeConnectionFailure ConnectionSelfFailure = True"
| "is_NodeConnectionFailure ConnectionPointFailure = True"
| "is_NodeConnectionFailure ConnectionPortNotEmptyFailure = True"
| "is_NodeConnectionFailure (OtherNodeConnectionFailure m) = True"
| "is_NodeConnectionFailure e = False"

text \<open>
  What \<^verbatim>\<open>try_connect\<close> and \<^verbatim>\<open>disconnect\<close> return to their caller: a bool, or
  \<^verbatim>\<open>None\<close> when the body ends without \<^verbatim>\<open>return\<close>.
\<close>

datatype pyvalue = PyNone | PyBool bool

subsection \<open>Connection\<close>

text \<open>
  Modelled from the spec: the class \<^verbatim>\<open>Connection\<close> is not part of the sources. A
  connection has two ends, each bound to a node and a port index or unbound, the direction
  it still requires, and the converter attached to it (spec, 3). \<^verbatim>\<open>get_port_index\<close>
  of an unbound end is \<open>INVALID\<close>. \<^verbatim>\<open>set_node_to_port\<close> binds an end and leaves no
  port required (comment in \<^verbatim>\<open>try_connect\<close>: the port is no longer required after
  it); \<^verbatim>\<open>clear_node\<close> unbinds an end.
\<close>

record Connection =
  conn_id :: connection_id
  required_port :: PortType
  in_end :: "(node_id \<times> PortIndex) option"
  out_end :: "(node_id \<times> PortIndex) option"
  type_converter :: "TypeConverter option"

fun connection_end :: "Connection \<Rightarrow> PortType \<Rightarrow> (node_id \<times> PortIndex) option" where
  "connection_end c PortType_input = in_end c"
| "connection_end c PortType_output = out_end c"
| "connection_end c p = None"

definition get_node :: "Connection \<Rightarrow> PortType \<Rightarrow> node_id option" where
  "get_node c port_type = map_option fst (connection_end c port_type)"

definition get_port_index :: "Connection \<Rightarrow> PortType \<Rightarrow> PortIndex" where
  "get_port_index c port_type =
     (case connection_end c port_type of None \<Rightarrow> INVALID | Some (n, i) \<Rightarrow> i)"

definition set_type_converter :: "TypeConverter option \<Rightarrow> Connection \<Rightarrow> Connection" where
  "set_type_converter converter c = c\<lparr>type_converter := converter\<rparr>"

fun set_node_to_port ::
  "node_id \<Rightarrow> PortType \<Rightarrow> PortIndex \<Rightarrow> Connection \<Rightarrow> Connection" where
  "set_node_to_port n PortType_input i c = c\<lparr>in_end := Some (n, i), required_port := PortType_none\<rparr>"
| "set_node_to_port n PortType_output i c = c\<lparr>out_end := Some (n, i), required_port := PortType_none\<rparr>"
| "set_node_to_port n p i c = c\<lparr>required_port := PortType_none\<rparr>"

fun clear_node :: "PortType \<Rightarrow> Connection \<Rightarrow> Connection" where
  "clear_node PortType_input c = c\<lparr>in_end := None\<rparr>"
| "clear_node PortType_output c = c\<lparr>out_end := None\<rparr>"
| "clear_node p c = c"

subsection \<open>Node port state\<close>

text \<open>
  Modelled from the spec: the class \<^verbatim>\<open>NodeState\<close> is not part of the sources. It keeps,
  for each direction, a Python list with one entry per port: the connections that occupy
  the port. An entry is empty (false in Python) when no connection occupies it. Looking
  a direction up that is neither input nor output raises.

  \<open>py_index\<close> is the lookup \<^verbatim>\<open>entries[port_index]\<close> of a Python list of length \<open>n\<close>: an
  index from 0 to \<open>n - 1\<close> reads that position, an index from \<open>-n\<close> to \<open>-1\<close> counts from
  the end and reads position \<open>n + port_index\<close>, and any other index raises
  \<^verbatim>\<open>IndexError\<close>.
\<close>

record NodeState =
  in_connections :: "connection_id set list"
  out_connections :: "connection_id set list"

fun get_entries :: "NodeState \<Rightarrow> PortType \<Rightarrow> error + connection_id set list" where
  "get_entries st PortType_input = Inr (in_connections st)"
| "get_entries st PortType_output = Inr (out_connections st)"
| "get_entries st p = Inl KeyError"

fun put_entries :: "PortType \<Rightarrow> connection_id set list \<Rightarrow> NodeState \<Rightarrow> NodeState" where
  "put_entries PortType_input es st = st\<lparr>in_connections := es\<rparr>"
| "put_entries PortType_output es st = st\<lparr>out_connections := es\<rparr>"
| "put_entries p es st = st"

definition py_index :: "'a list \<Rightarrow> PortIndex \<Rightarrow> error + nat" where
  "py_index xs i =
     (if 0 \<le> i \<and> i < int (length xs) then Inr (nat i)
      else if - int (length xs) \<le> i \<and> i < 0 then Inr (nat (int (length xs) + i))
      else Inl IndexError)"

definition set_connection ::
  "PortType \<Rightarrow> PortIndex \<Rightarrow> connection_id \<Rightarrow> NodeState \<Rightarrow> error + NodeState" where
  "set_connection port_type port_index c st =
     (case get_entries st port_type of
        Inl e \<Rightarrow> Inl e
      | Inr entries \<Rightarrow>
          (case py_index entries port_index of
             Inl e \<Rightarrow> Inl e
           | Inr k \<Rightarrow> Inr (put_entries port_type (entries[k := insert c (entries ! k)]) st)))"

definition erase_connection ::
  "PortType \<Rightarrow> PortIndex \<Rightarrow> connection_id \<Rightarrow> NodeState \<Rightarrow> error + NodeState" where
  "erase_connection port_type port_index c st =
     (case get_entries st port_type of
        Inl e \<Rightarrow> Inl e
      | Inr entries \<Rightarrow>
          (case py_index entries port_index of
             Inl e \<Rightarrow> Inl e
           | Inr k \<Rightarrow> Inr (put_entries port_type (entries[k := entries ! k - {c}]) st)))"

subsection \<open>External collaborators\<close>

text \<open>
  Positions are only handed from one collaborator to the next; the engine computes
  nothing on them.
\<close>

datatype QPointF = QPointF int int

text \<open>
  The collaborators the engine only reads: the geometry of the connection and of the
  node (\<open>check_hit_scene_point\<close> is the node geometry's hit test, already applied to the
  node's scene transform), the data type the connection knows at an end, the node's data
  model and the registry of the scene. The data model is user code and the registry is
  not part of the sources, so \<open>port_out_connection_policy\<close> and \<open>get_type_converter\<close>
  may raise, and the registry may return \<^verbatim>\<open>None\<close>.
\<close>

record env =
  get_end_point :: "PortType \<Rightarrow> QPointF"
  mapToScene :: "QPointF \<Rightarrow> QPointF"
  check_hit_scene_point :: "PortType \<Rightarrow> QPointF \<Rightarrow> PortIndex"
  connection_data_type :: "PortType \<Rightarrow> NodeDataType"
  data_type :: "PortType \<Rightarrow> PortIndex \<Rightarrow> NodeDataType"
  port_out_connection_policy :: "PortIndex \<Rightarrow> error + ConnectionPolicy"
  get_type_converter :: "NodeDataType \<Rightarrow> NodeDataType \<Rightarrow> error + TypeConverter option"

text \<open>
  The calls that leave the engine, in the order they are made: the two log records of a
  failed \<^verbatim>\<open>try_connect\<close>, the request to recompute the geometry, the notification of
  the output node, the propagation of empty data and the request to track the pointer.
\<close>

datatype event =
    logger_debug error
  | logger_info error
  | move_connections node_id
  | on_data_updated node_id PortIndex
  | propagate_empty_data connection_id
  | grabMouse connection_id

text \<open>
  The engine \<^verbatim>\<open>NodeConnectionInteraction\<close> with the mutable objects it holds: the
  candidate node (its identity and its port state), the connection, and the calls made
  so far.
\<close>

record interaction =
  node :: node_id
  node_state :: NodeState
  connection :: Connection
  events :: "event list"

section \<open>The engine\<close>

definition connection_required_port :: "interaction \<Rightarrow> PortType" where
  "connection_required_port s = required_port (connection s)"

definition connection_end_scene_position :: "env \<Rightarrow> PortType \<Rightarrow> QPointF" where
  "connection_end_scene_position ev port_type = mapToScene ev (get_end_point ev port_type)"

text \<open>
  The scene transform of the node, which the source hands to the hit test of the node's
  geometry, is part of \<open>check_hit_scene_point\<close> here.
\<close>

definition node_port_index_under_scene_point :: "env \<Rightarrow> PortType \<Rightarrow> QPointF \<Rightarrow> PortIndex" where
  "node_port_index_under_scene_point ev port_type scene_point =
     check_hit_scene_point ev port_type scene_point"

definition node_port_is_empty ::
  "env \<Rightarrow> interaction \<Rightarrow> PortType \<Rightarrow> PortIndex \<Rightarrow> error + bool" where
  "node_port_is_empty ev s port_type port_index =
     (case get_entries (node_state s) port_type of
        Inl e \<Rightarrow> Inl e
      | Inr entries \<Rightarrow>
          (case py_index entries port_index of
             Inl e \<Rightarrow> Inl e
           | Inr k \<Rightarrow>
               if entries ! k = {} then Inr True
               else (case port_out_connection_policy ev port_index of
                       Inl e \<Rightarrow> Inl e
                     | Inr out_policy \<Rightarrow>
                         Inr (port_type = PortType_output
                              \<and> out_policy = ConnectionPolicy_many))))"

text \<open>
  Step 4 of \<^verbatim>\<open>can_connect\<close> (its last lines, after the port was found vacant), kept
  apart so that the steps before it can be stated against it.
\<close>

definition resolve_converter ::
  "env \<Rightarrow> PortType \<Rightarrow> PortIndex \<Rightarrow> error + (PortIndex \<times> TypeConverter option)" where
  "resolve_converter ev req_port port_index =
     (let conn_data_type = connection_data_type ev (opposite_port req_port);
          candidate_node_data_type = data_type ev req_port port_index
      in if type_id conn_data_type = type_id candidate_node_data_type
         then Inr (port_index, Some DefaultTypeConverter)
         else (case (if req_port = PortType_input
                     then get_type_converter ev conn_data_type candidate_node_data_type
                     else get_type_converter ev candidate_node_data_type conn_data_type) of
                 Inl e \<Rightarrow> Inl e
               | Inr converter \<Rightarrow> Inr (port_index, converter)))"

definition can_connect ::
  "env \<Rightarrow> interaction \<Rightarrow> error + (PortIndex \<times> TypeConverter option)" where
  "can_connect ev s =
     (let req_port = connection_required_port s
      in if req_port = PortType_none then Inl ConnectionRequiresPortFailure
         else if req_port \<noteq> PortType_input \<and> req_port \<noteq> PortType_output then Inl ValueError
         else if get_node (connection s) (opposite_port req_port) = Some (node s)
         then Inl ConnectionSelfFailure
         else (let port_index = node_port_index_under_scene_point ev req_port
                                  (connection_end_scene_position ev req_port)
               in if port_index = INVALID then Inl ConnectionPointFailure
                  else (case node_port_is_empty ev s req_port port_index of
                          Inl e \<Rightarrow> Inl e
                        | Inr vacant \<Rightarrow>
                            if \<not> vacant then Inl ConnectionPortNotEmptyFailure
                            else resolve_converter ev req_port port_index)))"

definition try_connect :: "env \<Rightarrow> interaction \<Rightarrow> error + (pyvalue \<times> interaction)" where
  "try_connect ev s =
     (case can_connect ev s of
        Inl ex \<Rightarrow>
          if is_NodeConnectionFailure ex
          then Inr (PyBool False, s\<lparr>events := events s @ [logger_debug ex, logger_info ex]\<rparr>)
          else Inl ex
      | Inr (port_index, converter) \<Rightarrow>
          (let s1 = (if truthy converter
                     then s\<lparr>connection := set_type_converter converter (connection s)\<rparr>
                     else s);
               req_port = connection_required_port s1
           in case set_connection req_port port_index (conn_id (connection s1))
                     (node_state s1) of
                Inl e \<Rightarrow> Inl e
              | Inr st \<Rightarrow>
                  (let c2 = set_node_to_port (node s1) req_port port_index (connection s1);
                       evs = events s1 @ [move_connections (node s1)];
                       evs' = (case get_node c2 PortType_output of
                                 None \<Rightarrow> evs
                               | Some out_node \<Rightarrow>
                                   evs @ [on_data_updated out_node (get_port_index c2 PortType_output)])
                   in Inr (PyBool True, s1\<lparr>node_state := st, connection := c2, events := evs'\<rparr>))))"

definition disconnect :: "PortType \<Rightarrow> interaction \<Rightarrow> error + (pyvalue \<times> interaction)" where
  "disconnect port_to_disconnect s =
     (let port_index = get_port_index (connection s) port_to_disconnect
      in case erase_connection port_to_disconnect port_index (conn_id (connection s))
                (node_state s) of
           Inl e \<Rightarrow> Inl e
         | Inr st \<Rightarrow>
             (let c1 = clear_node port_to_disconnect (connection s);
                  c2 = c1\<lparr>required_port := port_to_disconnect\<rparr>
              in Inr (PyNone,
                      s\<lparr>node_state := st, connection := c2,
                        events := events s @ [propagate_empty_data (conn_id (connection s)),
                                              grabMouse (conn_id (connection s))]\<rparr>)))"


subsection \<open>The state after a commit\<close>

text \<open>
  The state \<^verbatim>\<open>try_connect\<close> returns after a successful validation, written out: the
  converter is attached when it is true in Python, the connection is recorded in the
  entry of the port, the node is bound to the required end, the geometry is asked to
  move the connections, and the output node, when there is one, is told that its data
  was updated. It is used to state what the engine does, not by the engine.
\<close>

definition committed :: "interaction \<Rightarrow> PortIndex \<Rightarrow> TypeConverter option \<Rightarrow> interaction" where
  "committed s port_index converter =
     (let c1 = (if truthy converter then set_type_converter converter (connection s)
                else connection s);
          c2 = set_node_to_port (node s) (connection_required_port s) port_index c1
      in s\<lparr>node_state :=
             (case set_connection (connection_required_port s) port_index
                     (conn_id (connection s)) (node_state s) of
                Inl e \<Rightarrow> node_state s
              | Inr st \<Rightarrow> st),
           connection := c2,
           events := events s @ move_connections (node s) #
             (case get_node c2 PortType_output of
                None \<Rightarrow> []
              | Some out_node \<Rightarrow> [on_data_updated out_node (get_port_index c2 PortType_output)])\<rparr>)"

section \<open>Example scenes\<close>

text \<open>
  Two data types, a registry without converters and one that converts \<open>T1\<close> to \<open>T2\<close>.
  In the example scene the connection has identifier 7 and knows data type \<open>T1\<close>; its
  dangling end lies at the origin, which is over port 0 of the candidate node 2. The
  arguments choose the type the node's data model declares, the connection policy and
  the registry; the direction the connection requires, the node at its bound end and the
  content of the port entries of node 2.
\<close>

definition T1 :: NodeDataType where
  "T1 = NodeDataType ''T1'' ''first type''"

definition T2 :: NodeDataType where
  "T2 = NodeDataType ''T2'' ''second type''"

definition empty_registry :: "NodeDataType \<Rightarrow> NodeDataType \<Rightarrow> error + TypeConverter option" where
  "empty_registry a b = Inr None"

definition T1_to_T2_registry ::
  "NodeDataType \<Rightarrow> NodeDataType \<Rightarrow> error + TypeConverter option" where
  "T1_to_T2_registry a b =
     (if a = T1 \<and> b = T2 then Inr (Some (RegisteredConverter T1 T2)) else Inr None)"

definition policy_one :: "PortIndex \<Rightarrow> error + ConnectionPolicy" where
  "policy_one i = Inr ConnectionPolicy_one"

definition policy_many :: "PortIndex \<Rightarrow> error + ConnectionPolicy" where
  "policy_many i = Inr ConnectionPolicy_many"

definition policy_raises :: "PortIndex \<Rightarrow> error + ConnectionPolicy" where
  "policy_raises i = Inl (OtherException ''NotImplementedError'')"

definition example_env ::
  "NodeDataType \<Rightarrow> (PortIndex \<Rightarrow> error + ConnectionPolicy) \<Rightarrow>
   (NodeDataType \<Rightarrow> NodeDataType \<Rightarrow> error + TypeConverter option) \<Rightarrow> env" where
  "example_env port_data_type policy registry =
     \<lparr>get_end_point = (\<lambda>p. QPointF 0 0),
      mapToScene = (\<lambda>q. q),
      check_hit_scene_point = (\<lambda>p q. if q = QPointF 0 0 then 0 else INVALID),
      connection_data_type = (\<lambda>p. T1),
      data_type = (\<lambda>p i. port_data_type),
      port_out_connection_policy = policy,
      get_type_converter = registry\<rparr>"

definition away_env :: env where
  "away_env = (example_env T1 policy_one empty_registry)\<lparr>get_end_point := (\<lambda>p. QPointF 50 50)\<rparr>"

definition example_connection :: "PortType \<Rightarrow> node_id \<Rightarrow> Connection" where
  "example_connection rp n =
     \<lparr>conn_id = 7, required_port = rp,
      in_end = (if rp = PortType_input then None else Some (n, 0)),
      out_end = (if rp = PortType_output then None else Some (n, 0)),
      type_converter = None\<rparr>"

definition example_state :: "PortType \<Rightarrow> node_id \<Rightarrow> connection_id set \<Rightarrow> interaction" where
  "example_state rp n slot =
     \<lparr>node = 2,
      node_state = \<lparr>in_connections = [slot], out_connections = [slot]\<rparr>,
      connection = example_connection rp n,
      events = []\<rparr>"

text \<open>
  A complete connection: its input end is bound to port 0 of node 2, whose entry records
  it, and its output end to port 0 of node 5.
\<close>

definition connected_example :: interaction where
  "connected_example =
     \<lparr>node = 2,
      node_state = \<lparr>in_connections = [{7}], out_connections = [{}]\<rparr>,
      connection = \<lparr>conn_id = 7, required_port = PortType_none,
                    in_end = Some (2, 0), out_end = Some (5, 0), type_converter = None\<rparr>,
      events = []\<rparr>"

section \<open>Properties of the engine\<close>

lemmas example_defs =
  T1_def T2_def empty_registry_def T1_to_T2_registry_def policy_one_def policy_many_def
  policy_raises_def example_env_def away_env_def example_connection_def example_state_def
  INVALID_def

lemmas engine_defs =
  can_connect_def try_connect_def disconnect_def node_port_is_empty_def resolve_converter_def
  connection_required_port_def connection_end_scene_position_def
  node_port_index_under_scene_point_def get_node_def get_port_index_def
  set_connection_def erase_connection_def set_type_converter_def py_index_def Let_def

subsection \<open>What a successful validation implies\<close>

lemma py_index_in_range:
  "py_index xs i = Inr k \<Longrightarrow> k < length xs"
  by (auto simp: py_index_def split: if_splits)

lemma py_index_list_update:
  "py_index (xs[k := v]) i = py_index xs i"
  by (simp add: py_index_def)

lemma resolve_converter_index:
  "resolve_converter ev rp j = Inr (i, conv) \<Longrightarrow> i = j"
  by (auto simp: resolve_converter_def Let_def split: if_splits sum.splits)

lemma node_port_is_empty_in_range:
  "node_port_is_empty ev s rp i = Inr b \<Longrightarrow>
     \<exists>entries k. get_entries (node_state s) rp = Inr entries \<and> py_index entries i = Inr k"
  by (auto simp: node_port_is_empty_def split: sum.splits if_splits)

lemma can_connect_success:
  assumes "can_connect ev s = Inr (i, conv)"
  shows "(connection_required_port s = PortType_input
            \<or> connection_required_port s = PortType_output)
       \<and> get_node (connection s) (opposite_port (connection_required_port s)) \<noteq> Some (node s)
       \<and> node_port_index_under_scene_point ev (connection_required_port s)
            (connection_end_scene_position ev (connection_required_port s)) = i
       \<and> i \<noteq> INVALID
       \<and> node_port_is_empty ev s (connection_required_port s) i = Inr True
       \<and> resolve_converter ev (connection_required_port s) i = Inr (i, conv)"
  using assms
  by (auto simp: can_connect_def Let_def split: if_splits sum.splits
           dest: resolve_converter_index)

subsection \<open>Failed validation\<close>

text \<open>
  Claim C2. \<^verbatim>\<open>try_connect\<close> is where the connection-failure category is absorbed:
  whenever \<^verbatim>\<open>can_connect\<close> raises a failure of that category, \<^verbatim>\<open>try_connect\<close> logs
  it (a debug and an info record) and returns false, and the state it returns has the
  connection and the node's port state it was given. \<^verbatim>\<open>can_connect\<close> itself returns
  no state: it only reads.
\<close>

theorem try_connect_absorbs_connection_failure:
  assumes "can_connect ev s = Inl ex" and "is_NodeConnectionFailure ex"
  shows "\<exists>s'. try_connect ev s = Inr (PyBool False, s')
           \<and> connection s' = connection s
           \<and> node_state s' = node_state s
           \<and> node s' = node s
           \<and> events s' = events s @ [logger_debug ex, logger_info ex]"
  using assms by (simp add: try_connect_def)

theorem try_connect_absorbs_connection_failure_witness:
  "can_connect away_env (example_state PortType_input 5 {}) = Inl ConnectionPointFailure
   \<and> is_NodeConnectionFailure ConnectionPointFailure
   \<and> (\<exists>s'. try_connect away_env (example_state PortType_input 5 {}) = Inr (PyBool False, s')
         \<and> connection s' = connection (example_state PortType_input 5 {})
         \<and> node_state s' = node_state (example_state PortType_input 5 {})
         \<and> node s' = node (example_state PortType_input 5 {})
         \<and> events s' = events (example_state PortType_input 5 {})
              @ [logger_debug ConnectionPointFailure, logger_info ConnectionPointFailure])"
proof -
  have failed: "can_connect away_env (example_state PortType_input 5 {})
                  = Inl ConnectionPointFailure"
    by (simp add: example_defs engine_defs)
  have category: "is_NodeConnectionFailure ConnectionPointFailure"
    by simp
  from try_connect_absorbs_connection_failure [OF failed category] failed category
  show ?thesis by blast
qed

text \<open>
  Claim C6. Step 1 of \<^verbatim>\<open>can_connect\<close>: when the connection requires no port (the
  value \<^verbatim>\<open>none\<close>), it raises \<^verbatim>\<open>ConnectionRequiresPortFailure\<close>, a member of the
  connection-failure category, which \<^verbatim>\<open>try_connect\<close> turns into false. When the
  required port is any other value that is neither input nor output, it raises
  \<^verbatim>\<open>ValueError\<close>, which is not in the category and which \<^verbatim>\<open>try_connect\<close> lets through.
\<close>

theorem can_connect_required_port_check:
  "(connection_required_port s = PortType_none \<longrightarrow>
      can_connect ev s = Inl ConnectionRequiresPortFailure
      \<and> is_NodeConnectionFailure ConnectionRequiresPortFailure
      \<and> (\<exists>s'. try_connect ev s = Inr (PyBool False, s')))
   \<and> (connection_required_port s \<noteq> PortType_none
        \<and> connection_required_port s \<noteq> PortType_input
        \<and> connection_required_port s \<noteq> PortType_output \<longrightarrow>
      can_connect ev s = Inl ValueError
      \<and> \<not> is_NodeConnectionFailure ValueError
      \<and> try_connect ev s = Inl ValueError)"
  by (simp add: can_connect_def try_connect_def)

theorem can_connect_required_port_check_witness:
  "connection_required_port (example_state PortType_none 5 {}) = PortType_none
   \<and> can_connect (example_env T1 policy_one empty_registry) (example_state PortType_none 5 {})
       = Inl ConnectionRequiresPortFailure
   \<and> (\<exists>s'. try_connect (example_env T1 policy_one empty_registry)
             (example_state PortType_none 5 {}) = Inr (PyBool False, s'))
   \<and> connection_required_port (example_state (not_a_port_type ''both'') 5 {})
       = not_a_port_type ''both''
   \<and> can_connect (example_env T1 policy_one empty_registry)
         (example_state (not_a_port_type ''both'') 5 {}) = Inl ValueError
   \<and> try_connect (example_env T1 policy_one empty_registry)
         (example_state (not_a_port_type ''both'') 5 {}) = Inl ValueError"
proof -
  have none_required: "connection_required_port (example_state PortType_none 5 {}) = PortType_none"
    by (simp add: example_defs connection_required_port_def)
  have other_required:
    "connection_required_port (example_state (not_a_port_type ''both'') 5 {})
       = not_a_port_type ''both''"
    by (simp add: example_defs connection_required_port_def)
  from can_connect_required_port_check
         [of "example_state PortType_none 5 {}" "example_env T1 policy_one empty_registry"]
       can_connect_required_port_check
         [of "example_state (not_a_port_type ''both'') 5 {}"
             "example_env T1 policy_one empty_registry"]
       none_required other_required
  show ?thesis by simp
qed

subsection \<open>Order of the checks\<close>

text \<open>
  Claim C3. \<^verbatim>\<open>can_connect\<close> checks in this order and stops at the first failure:
  the required port (\<^verbatim>\<open>ConnectionRequiresPortFailure\<close>), the node bound at the opposite
  end against the candidate node (\<^verbatim>\<open>ConnectionSelfFailure\<close>), the hit test of the
  dangling end (\<^verbatim>\<open>ConnectionPointFailure\<close> on \<^verbatim>\<open>INVALID\<close>), the occupancy of the port
  (\<^verbatim>\<open>ConnectionPortNotEmptyFailure\<close>), and then the resolution of the converter. Each
  failure needs only that the checks before it passed. So a connection whose opposite end
  is bound to the candidate node fails with \<^verbatim>\<open>ConnectionSelfFailure\<close> whatever the hit
  test and the port entries say.
\<close>

theorem can_connect_check_order:
  "(connection_required_port s = PortType_none \<longrightarrow>
      can_connect ev s = Inl ConnectionRequiresPortFailure)
   \<and> ((connection_required_port s = PortType_input
          \<or> connection_required_port s = PortType_output)
        \<and> get_node (connection s) (opposite_port (connection_required_port s)) = Some (node s)
        \<longrightarrow> can_connect ev s = Inl ConnectionSelfFailure)
   \<and> ((connection_required_port s = PortType_input
          \<or> connection_required_port s = PortType_output)
        \<and> get_node (connection s) (opposite_port (connection_required_port s)) \<noteq> Some (node s)
        \<and> node_port_index_under_scene_point ev (connection_required_port s)
             (connection_end_scene_position ev (connection_required_port s)) = INVALID
        \<longrightarrow> can_connect ev s = Inl ConnectionPointFailure)
   \<and> ((connection_required_port s = PortType_input
          \<or> connection_required_port s = PortType_output)
        \<and> get_node (connection s) (opposite_port (connection_required_port s)) \<noteq> Some (node s)
        \<and> node_port_index_under_scene_point ev (connection_required_port s)
             (connection_end_scene_position ev (connection_required_port s)) = i
        \<and> i \<noteq> INVALID
        \<and> node_port_is_empty ev s (connection_required_port s) i = Inr False
        \<longrightarrow> can_connect ev s = Inl ConnectionPortNotEmptyFailure)
   \<and> ((connection_required_port s = PortType_input
          \<or> connection_required_port s = PortType_output)
        \<and> get_node (connection s) (opposite_port (connection_required_port s)) \<noteq> Some (node s)
        \<and> node_port_index_under_scene_point ev (connection_required_port s)
             (connection_end_scene_position ev (connection_required_port s)) = i
        \<and> i \<noteq> INVALID
        \<and> node_port_is_empty ev s (connection_required_port s) i = Inr True
        \<longrightarrow> can_connect ev s = resolve_converter ev (connection_required_port s) i)"
  by (auto simp: can_connect_def Let_def)

theorem can_connect_check_order_witness:
  "can_connect (example_env T1 policy_one empty_registry) (example_state PortType_none 5 {})
     = Inl ConnectionRequiresPortFailure
   \<and> can_connect away_env (example_state PortType_output 2 {3})
     = Inl ConnectionSelfFailure
   \<and> can_connect away_env (example_state PortType_input 5 {3})
     = Inl ConnectionPointFailure
   \<and> can_connect (example_env T1 policy_one empty_registry) (example_state PortType_input 5 {3})
     = Inl ConnectionPortNotEmptyFailure
   \<and> can_connect (example_env T1 policy_one empty_registry) (example_state PortType_input 5 {})
     = Inr (0, Some DefaultTypeConverter)"
proof -
  let ?ev = "example_env T1 policy_one empty_registry"
  have required:
    "connection_required_port (example_state PortType_none 5 {}) = PortType_none"
    "connection_required_port (example_state PortType_output 2 {3}) = PortType_output"
    "connection_required_port (example_state PortType_input 5 {3}) = PortType_input"
    "connection_required_port (example_state PortType_input 5 {}) = PortType_input"
    by (simp_all add: example_defs connection_required_port_def)
  have self_bound:
    "get_node (connection (example_state PortType_output 2 {3})) PortType_input
       = Some (node (example_state PortType_output 2 {3}))"
    by (simp add: example_defs get_node_def)
  have other_bound:
    "get_node (connection (example_state PortType_input 5 {3})) PortType_output
       \<noteq> Some (node (example_state PortType_input 5 {3}))"
    "get_node (connection (example_state PortType_input 5 {})) PortType_output
       \<noteq> Some (node (example_state PortType_input 5 {}))"
    by (simp_all add: example_defs get_node_def)
  have miss:
    "node_port_index_under_scene_point away_env PortType_input
       (connection_end_scene_position away_env PortType_input) = INVALID"
    by (simp add: example_defs node_port_index_under_scene_point_def
          connection_end_scene_position_def)
  have hit:
    "node_port_index_under_scene_point ?ev PortType_input
       (connection_end_scene_position ?ev PortType_input) = 0"
    "(0::int) \<noteq> INVALID"
    by (simp_all add: example_defs node_port_index_under_scene_point_def
          connection_end_scene_position_def)
  have occupied:
    "node_port_is_empty ?ev (example_state PortType_input 5 {3}) PortType_input 0 = Inr False"
    by (simp add: example_defs node_port_is_empty_def py_index_def)
  have vacant:
    "node_port_is_empty ?ev (example_state PortType_input 5 {}) PortType_input 0 = Inr True"
    by (simp add: example_defs node_port_is_empty_def py_index_def)
  have resolved: "resolve_converter ?ev PortType_input 0 = Inr (0, Some DefaultTypeConverter)"
    by (simp add: example_defs resolve_converter_def)
  from can_connect_check_order [of "example_state PortType_none 5 {}" ?ev] required
  have c1: "can_connect ?ev (example_state PortType_none 5 {}) = Inl ConnectionRequiresPortFailure"
    by simp
  from can_connect_check_order [of "example_state PortType_output 2 {3}" away_env]
       required self_bound
  have c2: "can_connect away_env (example_state PortType_output 2 {3}) = Inl ConnectionSelfFailure"
    by simp
  from can_connect_check_order [of "example_state PortType_input 5 {3}" away_env]
       required other_bound miss
  have c3: "can_connect away_env (example_state PortType_input 5 {3}) = Inl ConnectionPointFailure"
    by simp
  from can_connect_check_order [of "example_state PortType_input 5 {3}" ?ev 0]
       required other_bound hit occupied
  have c4: "can_connect ?ev (example_state PortType_input 5 {3})
              = Inl ConnectionPortNotEmptyFailure"
    by simp
  from can_connect_check_order [of "example_state PortType_input 5 {}" ?ev 0]
       required other_bound hit vacant resolved
  have c5: "can_connect ?ev (example_state PortType_input 5 {})
              = Inr (0, Some DefaultTypeConverter)"
    by simp
  from c1 c2 c3 c4 c5 show ?thesis by simp
qed

subsection \<open>Occupancy of a port\<close>

text \<open>
  Claim C4. \<^verbatim>\<open>node_port_is_empty\<close> only returns a value. For a direction and a port the
  node state has, and a data model that answers the query for the policy, it is true
  exactly when the stored entry is empty, or the direction is output and the policy of
  the port is many. So, once the checks before it passed, \<^verbatim>\<open>can_connect\<close> raises
  \<^verbatim>\<open>ConnectionPortNotEmptyFailure\<close> on every occupied port whose policy is not many, and
  on an output port whose policy is many it goes on to the converter whatever the entry
  holds.
\<close>

theorem node_port_is_empty_occupancy:
  assumes "get_entries (node_state s) port_type = Inr entries"
    and "py_index entries port_index = Inr k"
    and "port_out_connection_policy ev port_index = Inr policy"
  shows "node_port_is_empty ev s port_type port_index
           = Inr (entries ! k = {}
                  \<or> (port_type = PortType_output \<and> policy = ConnectionPolicy_many))
       \<and> (connection_required_port s = port_type
            \<and> get_node (connection s) (opposite_port port_type) \<noteq> Some (node s)
            \<and> node_port_index_under_scene_point ev port_type
                 (connection_end_scene_position ev port_type) = port_index
            \<and> port_index \<noteq> INVALID
            \<and> entries ! k \<noteq> {} \<and> policy \<noteq> ConnectionPolicy_many
          \<longrightarrow> can_connect ev s = Inl ConnectionPortNotEmptyFailure)
       \<and> (connection_required_port s = port_type \<and> port_type = PortType_output
            \<and> get_node (connection s) (opposite_port port_type) \<noteq> Some (node s)
            \<and> node_port_index_under_scene_point ev port_type
                 (connection_end_scene_position ev port_type) = port_index
            \<and> port_index \<noteq> INVALID
            \<and> policy = ConnectionPolicy_many
          \<longrightarrow> can_connect ev s = resolve_converter ev PortType_output port_index)"
proof -
  from assms
  have vacancy: "node_port_is_empty ev s port_type port_index
           = Inr (entries ! k = {}
                  \<or> (port_type = PortType_output \<and> policy = ConnectionPolicy_many))"
    by (simp add: node_port_is_empty_def)
  from assms(1) have direction: "port_type = PortType_input \<or> port_type = PortType_output"
    by (cases port_type) simp_all
  from direction vacancy
  have blocked: "connection_required_port s = port_type
         \<and> get_node (connection s) (opposite_port port_type) \<noteq> Some (node s)
         \<and> node_port_index_under_scene_point ev port_type
              (connection_end_scene_position ev port_type) = port_index
         \<and> port_index \<noteq> INVALID
         \<and> entries ! k \<noteq> {} \<and> policy \<noteq> ConnectionPolicy_many
         \<longrightarrow> can_connect ev s = Inl ConnectionPortNotEmptyFailure"
    by (auto simp: can_connect_def Let_def)
  from vacancy
  have shared: "connection_required_port s = port_type \<and> port_type = PortType_output
         \<and> get_node (connection s) (opposite_port port_type) \<noteq> Some (node s)
         \<and> node_port_index_under_scene_point ev port_type
              (connection_end_scene_position ev port_type) = port_index
         \<and> port_index \<noteq> INVALID
         \<and> policy = ConnectionPolicy_many
         \<longrightarrow> can_connect ev s = resolve_converter ev PortType_output port_index"
    by (auto simp: can_connect_def Let_def)
  from vacancy blocked shared show ?thesis by blast
qed

theorem node_port_is_empty_occupancy_witness:
  "node_port_is_empty (example_env T1 policy_one empty_registry)
      (example_state PortType_input 5 {3}) PortType_input 0 = Inr False
   \<and> can_connect (example_env T1 policy_one empty_registry)
      (example_state PortType_input 5 {3}) = Inl ConnectionPortNotEmptyFailure
   \<and> node_port_is_empty (example_env T1 policy_many empty_registry)
      (example_state PortType_output 5 {3}) PortType_output 0 = Inr True
   \<and> can_connect (example_env T1 policy_many empty_registry)
      (example_state PortType_output 5 {3}) = Inr (0, Some DefaultTypeConverter)"
proof -
  let ?one = "example_env T1 policy_one empty_registry"
  let ?many = "example_env T1 policy_many empty_registry"
  let ?s_in = "example_state PortType_input 5 {3}"
  let ?s_out = "example_state PortType_output 5 {3}"
  have entries_in: "get_entries (node_state ?s_in) PortType_input = Inr [{3}]"
    and entries_out: "get_entries (node_state ?s_out) PortType_output = Inr [{3}]"
    by (simp_all add: example_defs)
  have position: "py_index [{3::nat}] 0 = Inr 0"
    by (simp add: py_index_def)
  have one: "port_out_connection_policy ?one 0 = Inr ConnectionPolicy_one"
    and many: "port_out_connection_policy ?many 0 = Inr ConnectionPolicy_many"
    by (simp_all add: example_defs)
  have checks_in:
    "connection_required_port ?s_in = PortType_input"
    "get_node (connection ?s_in) (opposite_port PortType_input) \<noteq> Some (node ?s_in)"
    "node_port_index_under_scene_point ?one PortType_input
       (connection_end_scene_position ?one PortType_input) = 0"
    "(0::int) \<noteq> INVALID"
    by (simp_all add: example_defs connection_required_port_def get_node_def
          node_port_index_under_scene_point_def connection_end_scene_position_def)
  have checks_out:
    "connection_required_port ?s_out = PortType_output"
    "get_node (connection ?s_out) (opposite_port PortType_output) \<noteq> Some (node ?s_out)"
    "node_port_index_under_scene_point ?many PortType_output
       (connection_end_scene_position ?many PortType_output) = 0"
    "resolve_converter ?many PortType_output 0 = Inr (0, Some DefaultTypeConverter)"
    by (simp_all add: example_defs connection_required_port_def get_node_def
          node_port_index_under_scene_point_def connection_end_scene_position_def
          resolve_converter_def)
  from node_port_is_empty_occupancy [OF entries_in position one] checks_in
  have blocked: "node_port_is_empty ?one ?s_in PortType_input 0 = Inr False
                 \<and> can_connect ?one ?s_in = Inl ConnectionPortNotEmptyFailure"
    by simp
  from node_port_is_empty_occupancy [OF entries_out position many] checks_out checks_in(4)
  have shared: "node_port_is_empty ?many ?s_out PortType_output 0 = Inr True
                \<and> can_connect ?many ?s_out = Inr (0, Some DefaultTypeConverter)"
    by simp
  from blocked shared show ?thesis by simp
qed




subsection \<open>Committing a connection\<close>

lemma try_connect_on_success:
  assumes "can_connect ev s = Inr (port_index, converter)"
  shows "try_connect ev s = Inr (PyBool True, committed s port_index converter)"
proof -
  from can_connect_success [OF assms]
  have vacant: "node_port_is_empty ev s (connection_required_port s) port_index = Inr True"
    by simp
  from node_port_is_empty_in_range [OF vacant]
  obtain entries k where "get_entries (node_state s) (connection_required_port s) = Inr entries"
    and "py_index entries port_index = Inr k"
    by blast
  with assms show ?thesis
    by (cases "truthy converter")
       (simp_all add: try_connect_def committed_def set_connection_def Let_def
          connection_required_port_def set_type_converter_def split: option.splits)
qed

lemma committed_entries:
  assumes "get_entries (node_state s) (connection_required_port s) = Inr entries"
    and "py_index entries port_index = Inr k"
  shows "get_entries (node_state (committed s port_index converter)) (connection_required_port s)
           = Inr (entries[k := insert (conn_id (connection s)) (entries ! k)])"
  using assms
  by (cases "connection_required_port s")
     (simp_all add: committed_def set_connection_def Let_def)

lemma committed_node_state:
  assumes "get_entries (node_state s) (connection_required_port s) = Inr entries"
    and "py_index entries port_index = Inr k"
  shows "node_state (committed s port_index converter)
           = put_entries (connection_required_port s)
               (entries[k := insert (conn_id (connection s)) (entries ! k)]) (node_state s)"
  using assms by (simp add: committed_def set_connection_def Let_def)

lemma committed_end:
  assumes "connection_required_port s = PortType_input
             \<or> connection_required_port s = PortType_output"
  shows "connection_end (connection (committed s port_index converter))
           (connection_required_port s) = Some (node s, port_index)"
  using assms by (auto simp: committed_def Let_def)

lemma committed_conn_id:
  "conn_id (connection (committed s port_index converter)) = conn_id (connection s)"
  by (cases "connection_required_port s")
     (simp_all add: committed_def Let_def set_type_converter_def)

lemma committed_type_converter:
  "type_converter (connection (committed s port_index converter))
     = (if truthy converter then converter else type_converter (connection s))"
  by (cases "connection_required_port s")
     (simp_all add: committed_def Let_def set_type_converter_def)

lemma committed_events:
  "events (committed s port_index converter)
     = events s @ move_connections (node s) #
         (case get_node (connection (committed s port_index converter)) PortType_output of
            None \<Rightarrow> []
          | Some out_node \<Rightarrow>
              [on_data_updated out_node
                 (get_port_index (connection (committed s port_index converter)) PortType_output)])"
  by (simp add: committed_def Let_def split: option.splits)

text \<open>
  Claim C5, as stated, wants \<^verbatim>\<open>try_connect\<close> to skip the attachment when the converter
  is the identity converter. The connection of the example has no converter and the same
  type as input port 0 of node 2: \<^verbatim>\<open>can_connect\<close> returns the identity converter and
  \<^verbatim>\<open>try_connect\<close> attaches it.
\<close>

theorem try_connect_attaches_identity_converter:
  "can_connect (example_env T1 policy_one empty_registry) (example_state PortType_input 5 {})
     = Inr (0, Some DefaultTypeConverter)
   \<and> type_converter (connection (example_state PortType_input 5 {})) = None
   \<and> try_connect (example_env T1 policy_one empty_registry) (example_state PortType_input 5 {})
     = Inr (PyBool True,
            \<lparr>node = 2,
             node_state = \<lparr>in_connections = [{7}], out_connections = [{}]\<rparr>,
             connection = \<lparr>conn_id = 7, required_port = PortType_none,
                           in_end = Some (2, 0), out_end = Some (5, 0),
                           type_converter = Some DefaultTypeConverter\<rparr>,
             events = [move_connections 2, on_data_updated 5 0]\<rparr>)"
  by (simp add: example_defs engine_defs)

text \<open>
  Claim C5, amended. Whenever \<^verbatim>\<open>can_connect\<close> succeeds with an index and a converter,
  \<^verbatim>\<open>try_connect\<close> returns true and the state it returns has: the converter attached to
  the connection whenever it is true in Python, the identity converter included, and
  left as it was only on a value that is false, such as \<^verbatim>\<open>None\<close>; the candidate
  node bound to the required end of the connection at that index; the connection recorded
  in the entry of that port in the node's state; the request to move the connections; and,
  when the connection then has an output node, the call of \<^verbatim>\<open>on_data_updated\<close> on
  that node with the output port index.
\<close>

theorem try_connect_commits:
  assumes "can_connect ev s = Inr (port_index, converter)"
  shows "\<exists>s' entries k.
           try_connect ev s = Inr (PyBool True, s')
         \<and> type_converter (connection s')
             = (if truthy converter then converter else type_converter (connection s))
         \<and> (converter = Some DefaultTypeConverter \<longrightarrow>
              type_converter (connection s') = Some DefaultTypeConverter)
         \<and> (converter = None \<longrightarrow>
              type_converter (connection s') = type_converter (connection s))
         \<and> get_node (connection s') (connection_required_port s) = Some (node s)
         \<and> get_port_index (connection s') (connection_required_port s) = port_index
         \<and> port_index \<noteq> INVALID
         \<and> get_entries (node_state s') (connection_required_port s) = Inr entries
         \<and> py_index entries port_index = Inr k
         \<and> k < length entries
         \<and> conn_id (connection s) \<in> entries ! k
         \<and> events s' = events s @ move_connections (node s) #
              (case get_node (connection s') PortType_output of
                 None \<Rightarrow> []
               | Some out_node \<Rightarrow>
                   [on_data_updated out_node (get_port_index (connection s') PortType_output)])"
proof -
  let ?s' = "committed s port_index converter"
  from can_connect_success [OF assms]
  have direction: "connection_required_port s = PortType_input
                     \<or> connection_required_port s = PortType_output"
    and valid_index: "port_index \<noteq> INVALID"
    and vacant: "node_port_is_empty ev s (connection_required_port s) port_index = Inr True"
    by simp_all
  from node_port_is_empty_in_range [OF vacant]
  obtain entries k where entries: "get_entries (node_state s) (connection_required_port s) = Inr entries"
    and position: "py_index entries port_index = Inr k"
    by blast
  let ?entries' = "entries[k := insert (conn_id (connection s)) (entries ! k)]"
  have returned: "try_connect ev s = Inr (PyBool True, ?s')"
    by (rule try_connect_on_success [OF assms])
  have attached: "type_converter (connection ?s')
             = (if truthy converter then converter else type_converter (connection s))"
    by (rule committed_type_converter)
  have identity: "converter = Some DefaultTypeConverter \<longrightarrow>
              type_converter (connection ?s') = Some DefaultTypeConverter"
    by (simp add: committed_type_converter)
  have skipped: "converter = None \<longrightarrow>
              type_converter (connection ?s') = type_converter (connection s)"
    by (simp add: committed_type_converter)
  have bound: "get_node (connection ?s') (connection_required_port s) = Some (node s)"
    "get_port_index (connection ?s') (connection_required_port s) = port_index"
    by (simp_all add: get_node_def get_port_index_def committed_end [OF direction])
  have recorded: "get_entries (node_state ?s') (connection_required_port s) = Inr ?entries'"
    by (rule committed_entries [OF entries position])
  have in_range: "k < length entries"
    by (rule py_index_in_range [OF position])
  have position': "py_index ?entries' port_index = Inr k"
    using position by (simp add: py_index_list_update)
  have member: "k < length ?entries'" "conn_id (connection s) \<in> ?entries' ! k"
    using in_range by simp_all
  have called: "events ?s' = events s @ move_connections (node s) #
              (case get_node (connection ?s') PortType_output of
                 None \<Rightarrow> []
               | Some out_node \<Rightarrow>
                   [on_data_updated out_node (get_port_index (connection ?s') PortType_output)])"
    by (rule committed_events)
  from returned attached identity skipped bound valid_index recorded position' member called
  show ?thesis
    by blast
qed

theorem try_connect_commits_witness:
  "can_connect (example_env T2 policy_one T1_to_T2_registry) (example_state PortType_input 5 {})
     = Inr (0, Some (RegisteredConverter T1 T2))
   \<and> (\<exists>s' entries k.
         try_connect (example_env T2 policy_one T1_to_T2_registry)
           (example_state PortType_input 5 {}) = Inr (PyBool True, s')
       \<and> type_converter (connection s') = Some (RegisteredConverter T1 T2)
       \<and> get_node (connection s') PortType_input = Some 2
       \<and> get_port_index (connection s') PortType_input = 0
       \<and> get_entries (node_state s') PortType_input = Inr entries
       \<and> py_index entries 0 = Inr k
       \<and> k < length entries
       \<and> 7 \<in> entries ! k
       \<and> events s' = move_connections 2 #
            (case get_node (connection s') PortType_output of
               None \<Rightarrow> []
             | Some out_node \<Rightarrow>
                 [on_data_updated out_node (get_port_index (connection s') PortType_output)]))"
proof -
  let ?ev = "example_env T2 policy_one T1_to_T2_registry"
  let ?s = "example_state PortType_input 5 {}"
  have valid: "can_connect ?ev ?s = Inr (0, Some (RegisteredConverter T1 T2))"
    by (simp add: example_defs engine_defs)
  have given: "connection_required_port ?s = PortType_input" "node ?s = 2"
    "conn_id (connection ?s) = 7" "events ?s = []"
    by (simp_all add: example_defs connection_required_port_def)
  from try_connect_commits [OF valid, unfolded given]
  obtain s' entries k where
    "try_connect ?ev ?s = Inr (PyBool True, s')"
    "type_converter (connection s') = Some (RegisteredConverter T1 T2)"
    "get_node (connection s') PortType_input = Some 2"
    "get_port_index (connection s') PortType_input = 0"
    "get_entries (node_state s') PortType_input = Inr entries"
    "py_index entries 0 = Inr k" "k < length entries" "7 \<in> entries ! k"
    "events s' = [] @ move_connections 2 #
            (case get_node (connection s') PortType_output of
               None \<Rightarrow> []
             | Some out_node \<Rightarrow>
                 [on_data_updated out_node (get_port_index (connection s') PortType_output)])"
    by auto
  with valid show ?thesis
    by auto
qed

text \<open>
  Claim C9. \<^verbatim>\<open>try_connect\<close> attaches the converter \<^verbatim>\<open>can_connect\<close> returned exactly
  when that value is true in Python. On a value that is false, such as the \<^verbatim>\<open>None\<close> of
  a registry that has no converter for two different types, it attaches nothing, still
  binds the node and records the connection in the port entry, and returns true. So a
  successful \<^verbatim>\<open>try_connect\<close> does not tell that a connection between different types
  carries a converter.
\<close>

theorem try_connect_attaches_iff_truthy:
  assumes "can_connect ev s = Inr (port_index, converter)"
  shows "\<exists>s' entries k.
           try_connect ev s = Inr (PyBool True, s')
         \<and> (truthy converter \<longrightarrow>
              connection s' = set_node_to_port (node s) (connection_required_port s) port_index
                                (set_type_converter converter (connection s)))
         \<and> (\<not> truthy converter \<longrightarrow>
              connection s' = set_node_to_port (node s) (connection_required_port s) port_index
                                (connection s)
              \<and> type_converter (connection s') = type_converter (connection s))
         \<and> get_node (connection s') (connection_required_port s) = Some (node s)
         \<and> get_port_index (connection s') (connection_required_port s) = port_index
         \<and> port_index \<noteq> INVALID
         \<and> get_entries (node_state s') (connection_required_port s) = Inr entries
         \<and> py_index entries port_index = Inr k
         \<and> k < length entries
         \<and> conn_id (connection s) \<in> entries ! k"
proof -
  let ?s' = "committed s port_index converter"
  from can_connect_success [OF assms]
  have direction: "connection_required_port s = PortType_input
                     \<or> connection_required_port s = PortType_output"
    and valid_index: "port_index \<noteq> INVALID"
    and vacant: "node_port_is_empty ev s (connection_required_port s) port_index = Inr True"
    by simp_all
  from node_port_is_empty_in_range [OF vacant]
  obtain entries k where entries: "get_entries (node_state s) (connection_required_port s) = Inr entries"
    and position: "py_index entries port_index = Inr k"
    by blast
  let ?entries' = "entries[k := insert (conn_id (connection s)) (entries ! k)]"
  have returned: "try_connect ev s = Inr (PyBool True, ?s')"
    by (rule try_connect_on_success [OF assms])
  have attached: "truthy converter \<longrightarrow>
              connection ?s' = set_node_to_port (node s) (connection_required_port s) port_index
                                (set_type_converter converter (connection s))"
    by (simp add: committed_def Let_def)
  have skipped: "\<not> truthy converter \<longrightarrow>
              connection ?s' = set_node_to_port (node s) (connection_required_port s) port_index
                                (connection s)
              \<and> type_converter (connection ?s') = type_converter (connection s)"
    by (simp add: committed_type_converter) (simp add: committed_def Let_def)
  have bound: "get_node (connection ?s') (connection_required_port s) = Some (node s)"
    "get_port_index (connection ?s') (connection_required_port s) = port_index"
    by (simp_all add: get_node_def get_port_index_def committed_end [OF direction])
  have recorded: "get_entries (node_state ?s') (connection_required_port s) = Inr ?entries'"
    by (rule committed_entries [OF entries position])
  have in_range: "k < length entries"
    by (rule py_index_in_range [OF position])
  have position': "py_index ?entries' port_index = Inr k"
    using position by (simp add: py_index_list_update)
  have member: "k < length ?entries'" "conn_id (connection s) \<in> ?entries' ! k"
    using in_range by simp_all
  from returned attached skipped bound valid_index recorded position' member show ?thesis
    by blast
qed

theorem try_connect_attaches_iff_truthy_witness:
  "type_id (connection_data_type (example_env T2 policy_one empty_registry) PortType_output)
     \<noteq> type_id (data_type (example_env T2 policy_one empty_registry) PortType_input 0)
   \<and> can_connect (example_env T2 policy_one empty_registry) (example_state PortType_input 5 {})
       = Inr (0, None)
   \<and> \<not> truthy None
   \<and> (\<exists>s' entries k.
         try_connect (example_env T2 policy_one empty_registry)
           (example_state PortType_input 5 {}) = Inr (PyBool True, s')
       \<and> type_converter (connection s') = None
       \<and> get_node (connection s') PortType_input = Some 2
       \<and> get_port_index (connection s') PortType_input = 0
       \<and> get_entries (node_state s') PortType_input = Inr entries
       \<and> py_index entries 0 = Inr k
       \<and> k < length entries
       \<and> 7 \<in> entries ! k)"
proof -
  let ?ev = "example_env T2 policy_one empty_registry"
  let ?s = "example_state PortType_input 5 {}"
  have mismatch: "type_id (connection_data_type ?ev PortType_output)
                    \<noteq> type_id (data_type ?ev PortType_input 0)"
    by (simp add: example_defs)
  have valid: "can_connect ?ev ?s = Inr (0, None)"
    by (simp add: example_defs engine_defs)
  have given: "connection_required_port ?s = PortType_input" "node ?s = 2"
    "conn_id (connection ?s) = 7" "type_converter (connection ?s) = None"
    by (simp_all add: example_defs connection_required_port_def)
  from try_connect_attaches_iff_truthy [OF valid, unfolded given]
  obtain s' entries k where "try_connect ?ev ?s = Inr (PyBool True, s')"
    and "type_converter (connection s') = None"
    and "get_node (connection s') PortType_input = Some 2"
    and "get_port_index (connection s') PortType_input = 0"
    and "get_entries (node_state s') PortType_input = Inr entries"
    and "py_index entries 0 = Inr k"
    and "k < length entries" and "7 \<in> entries ! k"
    by auto
  with mismatch valid show ?thesis
    by auto
qed

subsection \<open>Disconnecting\<close>

text \<open>
  What \<^verbatim>\<open>disconnect\<close> does on an end that is bound to a port the node state has: the
  connection leaves the entry of that port, empty data is propagated, the end is cleared
  and required again, and the connection grabs the mouse. The body ends without a
  \<^verbatim>\<open>return\<close>, so the call returns \<^verbatim>\<open>None\<close>.
\<close>

lemma disconnect_bound_end:
  assumes "connection_end (connection s) port_to_disconnect = Some (n, port_index)"
    and "get_entries (node_state s) port_to_disconnect = Inr entries"
    and "py_index entries port_index = Inr k"
  shows "disconnect port_to_disconnect s =
           Inr (PyNone,
                s\<lparr>node_state :=
                     put_entries port_to_disconnect
                       (entries[k := entries ! k - {conn_id (connection s)}])
                       (node_state s),
                   connection :=
                     (clear_node port_to_disconnect (connection s))
                       \<lparr>required_port := port_to_disconnect\<rparr>,
                   events := events s @ [propagate_empty_data (conn_id (connection s)),
                                         grabMouse (conn_id (connection s))]\<rparr>)"
  using assms by (simp add: disconnect_def get_port_index_def erase_connection_def)

lemma put_entries_get_entries:
  assumes "get_entries st port_type = Inr entries"
  shows "get_entries (put_entries port_type entries' st) port_type = Inr entries'"
    and "put_entries port_type entries'' (put_entries port_type entries' st)
           = put_entries port_type entries'' st"
    and "put_entries port_type entries st = st"
  using assms by (cases port_type; simp)+

lemma try_connect_True:
  assumes "try_connect ev s = Inr (PyBool True, s1)"
  shows "\<exists>port_index converter.
           can_connect ev s = Inr (port_index, converter)
         \<and> s1 = committed s port_index converter"
proof (cases "can_connect ev s")
  case (Inl ex)
  with assms show ?thesis
    by (simp add: try_connect_def split: if_splits)
next
  case (Inr result)
  then obtain port_index converter where "can_connect ev s = Inr (port_index, converter)"
    by (cases result) simp
  with assms try_connect_on_success [of ev s port_index converter] show ?thesis
    by auto
qed

text \<open>
  Claim C8. When \<^verbatim>\<open>try_connect\<close> has bound an end, \<^verbatim>\<open>disconnect\<close> on that end
  returns; afterwards the connection requires that port again and has no node at that
  end, and the entry of the port in the node's state is the entry from before
  \<^verbatim>\<open>try_connect\<close> without the connection. When the connection was not in that entry
  before, the node's port state is the one from before \<^verbatim>\<open>try_connect\<close>.
\<close>

theorem try_connect_disconnect_round_trip:
  assumes "try_connect ev s = Inr (PyBool True, s1)"
  shows "\<exists>r s2 port_index k before.
           disconnect (connection_required_port s) s1 = Inr (r, s2)
         \<and> connection_required_port s2 = connection_required_port s
         \<and> get_node (connection s2) (connection_required_port s) = None
         \<and> get_node (connection s1) (connection_required_port s) = Some (node s)
         \<and> get_port_index (connection s1) (connection_required_port s) = port_index
         \<and> port_index \<noteq> INVALID
         \<and> get_entries (node_state s) (connection_required_port s) = Inr before
         \<and> py_index before port_index = Inr k
         \<and> k < length before
         \<and> get_entries (node_state s2) (connection_required_port s)
             = Inr (before[k := before ! k - {conn_id (connection s)}])
         \<and> (conn_id (connection s) \<notin> before ! k \<longrightarrow> node_state s2 = node_state s)"
proof -
  let ?rp = "connection_required_port s"
  let ?c = "conn_id (connection s)"
  from try_connect_True [OF assms]
  obtain port_index converter where valid: "can_connect ev s = Inr (port_index, converter)"
    and s1: "s1 = committed s port_index converter"
    by blast
  from can_connect_success [OF valid]
  have direction: "?rp = PortType_input \<or> ?rp = PortType_output"
    and valid_index: "port_index \<noteq> INVALID"
    and vacant: "node_port_is_empty ev s ?rp port_index = Inr True"
    by simp_all
  from node_port_is_empty_in_range [OF vacant]
  obtain before k where before: "get_entries (node_state s) ?rp = Inr before"
    and position: "py_index before port_index = Inr k"
    by blast
  have in_range: "k < length before"
    by (rule py_index_in_range [OF position])
  let ?during = "before[k := insert ?c (before ! k)]"
  let ?after = "before[k := before ! k - {?c}]"
  have bound: "connection_end (connection s1) ?rp = Some (node s, port_index)"
    unfolding s1 by (rule committed_end [OF direction])
  have recorded: "get_entries (node_state s1) ?rp = Inr ?during"
    unfolding s1 by (rule committed_entries [OF before position])
  have position': "py_index ?during port_index = Inr k"
    using position by (simp add: py_index_list_update)
  have same_id: "conn_id (connection s1) = ?c"
    unfolding s1 by (rule committed_conn_id)
  have state1: "node_state s1 = put_entries ?rp ?during (node_state s)"
    unfolding s1 by (rule committed_node_state [OF before position])
  let ?st2 = "put_entries ?rp (?during[k := ?during ! k - {?c}]) (node_state s1)"
  let ?c2 = "(clear_node ?rp (connection s1))\<lparr>required_port := ?rp\<rparr>"
  let ?s2 = "s1\<lparr>node_state := ?st2, connection := ?c2,
                events := events s1 @ [propagate_empty_data ?c, grabMouse ?c]\<rparr>"
  from disconnect_bound_end [OF bound recorded position'] same_id
  have returned: "disconnect ?rp s1 = Inr (PyNone, ?s2)"
    by simp
  have erased: "?during[k := ?during ! k - {?c}] = ?after"
    using in_range by simp
  have "?st2 = put_entries ?rp ?after (put_entries ?rp ?during (node_state s))"
    by (simp only: erased state1)
  also have "\<dots> = put_entries ?rp ?after (node_state s)"
    by (rule put_entries_get_entries(2) [OF before])
  finally have state2: "node_state ?s2 = put_entries ?rp ?after (node_state s)"
    by simp
  have required: "connection_required_port ?s2 = ?rp"
    by (simp add: connection_required_port_def)
  have cleared: "get_node (connection ?s2) ?rp = None"
    using direction by (auto simp: get_node_def)
  have was_bound: "get_node (connection s1) ?rp = Some (node s)"
    "get_port_index (connection s1) ?rp = port_index"
    using bound by (simp_all add: get_node_def get_port_index_def)
  have entries2: "get_entries (node_state ?s2) ?rp = Inr ?after"
    unfolding state2 by (rule put_entries_get_entries(1) [OF before])
  have restored: "?c \<notin> before ! k \<longrightarrow> node_state ?s2 = node_state s"
  proof
    assume "?c \<notin> before ! k"
    then have "?after = before"
      by simp
    with state2 before show "node_state ?s2 = node_state s"
      by (simp add: put_entries_get_entries(3))
  qed
  from returned required cleared was_bound valid_index before position in_range entries2 restored
  show ?thesis
    by blast
qed

theorem try_connect_disconnect_round_trip_witness:
  "try_connect (example_env T1 policy_one empty_registry) (example_state PortType_input 5 {})
     = Inr (PyBool True,
            committed (example_state PortType_input 5 {}) 0 (Some DefaultTypeConverter))
   \<and> (\<exists>r s2.
         disconnect PortType_input
           (committed (example_state PortType_input 5 {}) 0 (Some DefaultTypeConverter))
           = Inr (r, s2)
       \<and> connection_required_port s2 = PortType_input
       \<and> get_node (connection s2) PortType_input = None
       \<and> get_entries (node_state s2) PortType_input = Inr [{}]
       \<and> node_state s2 = node_state (example_state PortType_input 5 {}))"
proof -
  let ?ev = "example_env T1 policy_one empty_registry"
  let ?s = "example_state PortType_input 5 {}"
  let ?s1 = "committed ?s 0 (Some DefaultTypeConverter)"
  have valid: "can_connect ?ev ?s = Inr (0, Some DefaultTypeConverter)"
    by (simp add: example_defs engine_defs)
  have connected: "try_connect ?ev ?s = Inr (PyBool True, ?s1)"
    by (rule try_connect_on_success [OF valid])
  have given: "connection_required_port ?s = PortType_input"
    "conn_id (connection ?s) = 7"
    "get_entries (node_state ?s) PortType_input = Inr [{}]"
    by (simp_all add: example_defs connection_required_port_def)
  from try_connect_disconnect_round_trip [OF connected, unfolded given(1,2)]
  obtain r s2 port_index k before where
    returned: "disconnect PortType_input ?s1 = Inr (r, s2)"
    and required: "connection_required_port s2 = PortType_input"
    and cleared: "get_node (connection s2) PortType_input = None"
    and before: "get_entries (node_state ?s) PortType_input = Inr before"
    and in_range: "k < length before"
    and entries2: "get_entries (node_state s2) PortType_input
                     = Inr (before[k := before ! k - {7}])"
    and restored: "7 \<notin> before ! k \<longrightarrow> node_state s2 = node_state ?s"
    by blast
  from before given(3) have before_eq: "before = [{}]"
    by simp
  with in_range have first: "k = 0"
    by simp
  from entries2 restored have "get_entries (node_state s2) PortType_input = Inr [{}]"
    and "node_state s2 = node_state ?s"
    by (simp_all add: before_eq first)
  with connected returned required cleared show ?thesis
    by blast
qed

text \<open>
  Claim C7. \<^verbatim>\<open>disconnect\<close> is declared and documented to return a bool. On a
  connection whose input end is bound to port 0 of the engine's node, recorded in that
  port's entry, it removes the connection from the entry, propagates empty data, clears
  the end, marks it as required and grabs the mouse, without any failure; but what it
  returns is \<^verbatim>\<open>None\<close>, not a bool.
\<close>

theorem disconnect_returns_None:
  "disconnect PortType_input connected_example =
     Inr (PyNone,
          \<lparr>node = 2,
           node_state = \<lparr>in_connections = [{}], out_connections = [{}]\<rparr>,
           connection = \<lparr>conn_id = 7, required_port = PortType_input,
                         in_end = None, out_end = Some (5, 0), type_converter = None\<rparr>,
           events = [propagate_empty_data 7, grabMouse 7]\<rparr>)"
  by (simp add: connected_example_def disconnect_def get_port_index_def erase_connection_def
        py_index_def)

subsection \<open>Resolution of the converter\<close>

text \<open>
  Step 4 of \<^verbatim>\<open>can_connect\<close>, once the checks before it passed. Equal type identifiers
  give the identity converter. Different ones give what the registry returns for the
  lookup from the connection's type to the port's type when an input is required, and
  from the port's type to the connection's type when an output is required; what the
  lookup raises is raised.
\<close>

lemma can_connect_converter_resolution:
  assumes "connection_required_port s = rp"
    and "rp = PortType_input \<or> rp = PortType_output"
    and "get_node (connection s) (opposite_port rp) \<noteq> Some (node s)"
    and "node_port_index_under_scene_point ev rp (connection_end_scene_position ev rp)
           = port_index"
    and "port_index \<noteq> INVALID"
    and "node_port_is_empty ev s rp port_index = Inr True"
  shows "(type_id (connection_data_type ev (opposite_port rp))
            = type_id (data_type ev rp port_index) \<longrightarrow>
          can_connect ev s = Inr (port_index, Some DefaultTypeConverter))
       \<and> (type_id (connection_data_type ev (opposite_port rp))
            \<noteq> type_id (data_type ev rp port_index) \<and> rp = PortType_input \<longrightarrow>
          can_connect ev s =
            (case get_type_converter ev (connection_data_type ev PortType_output)
                    (data_type ev PortType_input port_index) of
               Inl e \<Rightarrow> Inl e
             | Inr converter \<Rightarrow> Inr (port_index, converter)))
       \<and> (type_id (connection_data_type ev (opposite_port rp))
            \<noteq> type_id (data_type ev rp port_index) \<and> rp = PortType_output \<longrightarrow>
          can_connect ev s =
            (case get_type_converter ev (data_type ev PortType_output port_index)
                    (connection_data_type ev PortType_input) of
               Inl e \<Rightarrow> Inl e
             | Inr converter \<Rightarrow> Inr (port_index, converter)))"
proof -
  from assms have "can_connect ev s = resolve_converter ev rp port_index"
    by (auto simp: can_connect_def Let_def)
  with assms(2) show ?thesis
    by (auto simp: resolve_converter_def Let_def)
qed

text \<open>
  Claim C1. The claim wants \<^verbatim>\<open>can_connect\<close> to fail when the type identifiers differ
  and no converter is registered. Here the connection knows type \<open>T1\<close>, the port declares
  \<open>T2\<close>, and the registry has no converter and answers \<^verbatim>\<open>None\<close>: \<^verbatim>\<open>can_connect\<close>
  does not fail, it returns port 0 with \<^verbatim>\<open>None\<close> as the converter.
\<close>

theorem can_connect_unregistered_conversion:
  "type_id (connection_data_type (example_env T2 policy_one empty_registry) PortType_output)
     \<noteq> type_id (data_type (example_env T2 policy_one empty_registry) PortType_input 0)
   \<and> get_type_converter (example_env T2 policy_one empty_registry)
        (connection_data_type (example_env T2 policy_one empty_registry) PortType_output)
        (data_type (example_env T2 policy_one empty_registry) PortType_input 0) = Inr None
   \<and> can_connect (example_env T2 policy_one empty_registry) (example_state PortType_input 5 {})
       = Inr (0, None)"
  by (simp add: example_defs engine_defs)

end
